theory Spec2Isabelle
  imports Complex_Main
begin

section \<open>Task progress poller (ProgressStatus component)\<close>

text \<open>
  The component's script is embedded as explicit state passing. The reactive refs
  (\<open>statusInfo\<close>, \<open>errorMessage\<close>, \<open>isPolling\<close>, \<open>pollTimer\<close>, \<open>startTime\<close>) and the props
  are fields of one record; so is the part of the browser the script talks to: the list
  of pending timeouts, the status requests still in flight, the clock read by
  \<open>Date.now()\<close>, and the events handed to \<open>emit\<close>, in emission order. Console output is
  not modelled. JavaScript numbers are modelled as reals (no NaN, no infinities).
\<close>

subsection \<open>Data\<close>

text \<open>
  \<open>ProcessStatus\<close> of \<open>types/index.ts\<close>. The interface declares \<open>progress: number\<close>, but
  \<open>displayProgress\<close> tests it against \<open>undefined\<close>, so the field is optional here.
\<close>

record ProcessStatus =
  task_id :: string
  status :: string
  progress :: "real option"
  message :: string
  created_time :: string
  updated_time :: string

text \<open>
  What a fulfilled status request delivers (\<open>response.data\<close> in \<open>api/api.ts\<close>). The HTTP
  client is created with a base URL and a timeout only, so it parses the body as JSON
  without insisting: a body that is not JSON text is delivered as the string it is, and
  the request is fulfilled all the same. \<open>Payload\<close> is a parsed status object,
  \<open>RawText\<close> a body that could not be parsed. (Bodies that are JSON text for something
  other than a status object are not modelled.)
\<close>

datatype response_data = Payload ProcessStatus | RawText string

text \<open>
  The properties the script reads from what was delivered: a string has neither, and
  only the empty string is falsy.
\<close>

fun status_of :: "response_data \<Rightarrow> string option" where
  "status_of (Payload st) = Some (status st)"
| "status_of (RawText x) = None"

fun progress_of :: "response_data \<Rightarrow> real option" where
  "progress_of (Payload st) = progress st"
| "progress_of (RawText x) = None"

fun falsy :: "response_data \<Rightarrow> bool" where
  "falsy (Payload st) = False"
| "falsy (RawText x) = (x = [])"

text \<open>The five events of the \<open>Emits\<close> interface.\<close>

datatype poller_event =
    StatusUpdate response_data
  | PollingStart
  | PollingStop
  | TaskCompleted ProcessStatus
  | TaskFailed ProcessStatus

text \<open>
  A thrown value: an error raised by the HTTP client, whose \<open>message\<close> property may be
  missing, or a TypeError raised by the engine, whose message is engine text.
\<close>

datatype js_error = RequestError "string option" | TypeError string

fun error_message :: "js_error \<Rightarrow> string option" where
  "error_message (RequestError m) = m"
| "error_message (TypeError m) = Some m"

text \<open>
  What \<open>await getProcessStatus(..)\<close> produces: \<open>Inr\<close> what was delivered when the
  promise is fulfilled, \<open>Inl\<close> the error when it is rejected (no answer, or an answer
  with an error status).
\<close>

type_synonym fetch_result = "js_error + response_data"

record poller =
  taskId :: string
  autoPoll :: bool
  pollInterval :: nat
  statusInfo :: "response_data option"
  errorMessage :: string
  isPolling :: bool
  pollTimer :: "nat option"
  startTime :: nat
  emitted :: "poller_event list"
  timers :: "(nat \<times> nat) list"
  nextTimer :: nat
  requests :: "string list"
  clock :: nat

text \<open>
  \<open>timers\<close> holds the pending timeouts as (handle, delay); every one of them has the
  callback \<open>poll\<close>. \<open>window.setTimeout\<close> returns a fresh positive handle.
\<close>

definition setTimeout :: "nat \<Rightarrow> poller \<Rightarrow> nat \<times> poller" where
  "setTimeout delay s =
     (nextTimer s, s\<lparr>timers := timers s @ [(nextTimer s, delay)],
                      nextTimer := Suc (nextTimer s)\<rparr>)"

definition clearTimeout :: "nat \<Rightarrow> poller \<Rightarrow> poller" where
  "clearTimeout h s = s\<lparr>timers := filter (\<lambda>t. fst t \<noteq> h) (timers s)\<rparr>"

definition emit :: "poller_event \<Rightarrow> poller \<Rightarrow> poller" where
  "emit e s = s\<lparr>emitted := emitted s @ [e]\<rparr>"

subsection \<open>Status projection\<close>

text \<open>\<open>a || b\<close> on strings: the empty string is falsy; \<open>None\<close> stands for \<open>undefined\<close>.\<close>

definition or_str :: "string option \<Rightarrow> string \<Rightarrow> string" where
  "or_str a b = (case a of None \<Rightarrow> b | Some x \<Rightarrow> if x = [] then b else x)"

text \<open>\<open>a || b\<close> on numbers: \<open>undefined\<close> and \<open>0\<close> are falsy.\<close>

definition or_num :: "real option \<Rightarrow> real \<Rightarrow> real" where
  "or_num a b = (case a of None \<Rightarrow> b | Some x \<Rightarrow> if x = 0 then b else x)"

definition currentStatus :: "poller \<Rightarrow> string" where
  "currentStatus s =
     or_str (case statusInfo s of None \<Rightarrow> None | Some info \<Rightarrow> status_of info) ''pending''"

text \<open>
  The two object literals, as association lists in source order. A lookup of a key that
  is not listed gives \<open>undefined\<close> (keys inherited from \<open>Object.prototype\<close> are not
  modelled).
\<close>

definition statusToStep :: "(string \<times> string) list" where
  "statusToStep =
     [(''pending'', ''pending''),
      (''uploading'', ''uploading''),
      (''processing'', ''processing_ocr''),
      (''processing_ocr'', ''processing_ocr''),
      (''cleaning'', ''cleaning''),
      (''processing_rag'', ''processing_rag''),
      (''completed'', ''completed''),
      (''failed'', ''failed'')]"

definition currentStep :: "poller \<Rightarrow> string" where
  "currentStep s = or_str (map_of statusToStep (currentStatus s)) ''pending''"

definition statusProgress :: "(string \<times> real) list" where
  "statusProgress =
     [(''pending'', 0),
      (''uploading'', 20),
      (''processing_ocr'', 40),
      (''cleaning'', 60),
      (''processing_rag'', 80),
      (''completed'', 100),
      (''failed'', 100)]"

definition displayProgress :: "poller \<Rightarrow> real" where
  "displayProgress s =
     (case statusInfo s of
        None \<Rightarrow> 0
      | Some info \<Rightarrow>
          if falsy info then 0
          else (case progress_of info of
                  Some p \<Rightarrow> min p 100
                | None \<Rightarrow> or_num (map_of statusProgress (currentStatus s)) 0))"

subsection \<open>Polling\<close>

definition stopPolling :: "poller \<Rightarrow> poller" where
  "stopPolling s =
     (let s1 = s\<lparr>isPolling := False\<rparr>;
          s2 = (case pollTimer s1 of
                  None \<Rightarrow> s1
                | Some h \<Rightarrow> if h = 0 then s1 else (clearTimeout h s1)\<lparr>pollTimer := None\<rparr>)
      in emit PollingStop s2)"

text \<open>
  The fallback of \<open>error.message || ..\<close> in the catch branch of \<open>poll\<close>: the source's
  literal, as its UTF-8 bytes.
\<close>

definition fetch_failed_message :: string where
  "fetch_failed_message =
     [CHR 0xE8, CHR 0x8E, CHR 0xB7, CHR 0xE5, CHR 0x8F, CHR 0x96,
      CHR 0xE7, CHR 0x8A, CHR 0xB6, CHR 0xE6, CHR 0x80, CHR 0x81,
      CHR 0xE5, CHR 0xA4, CHR 0xB1, CHR 0xE8, CHR 0xB4, CHR 0xA5]"

text \<open>
  The inner function \<open>poll\<close> is split at its \<open>await\<close>. \<open>poll_call\<close> is the part that
  runs when \<open>poll\<close> is called: it issues the request, for the task id the props hold at
  that moment. \<open>poll_resume\<close> is the rest of the body, run when that request settles:
  the \<open>try\<close> block for what was delivered (the \<open>status\<close> of a string is \<open>undefined\<close>,
  equal to neither \<open>completed\<close> nor \<open>failed\<close>), the \<open>catch\<close> block for a rejection.
  \<open>schedule_poll\<close> is the assignment \<open>pollTimer.value = window.setTimeout(poll, ..)\<close>.
\<close>

definition poll_call :: "poller \<Rightarrow> poller" where
  "poll_call s = s\<lparr>requests := requests s @ [taskId s]\<rparr>"

definition schedule_poll :: "poller \<Rightarrow> poller" where
  "schedule_poll s =
     (let (h, s1) = setTimeout (pollInterval s) s in s1\<lparr>pollTimer := Some h\<rparr>)"

definition poll_resume :: "fetch_result \<Rightarrow> poller \<Rightarrow> poller" where
  "poll_resume r s =
     (case r of
        Inr data \<Rightarrow>
          (let s1 = emit (StatusUpdate data) (s\<lparr>statusInfo := Some data\<rparr>) in
           case data of
             Payload st \<Rightarrow>
               if status st = ''completed'' then emit (TaskCompleted st) (stopPolling s1)
               else if status st = ''failed'' then emit (TaskFailed st) (stopPolling s1)
               else if isPolling s1 then schedule_poll s1
               else s1
           | RawText x \<Rightarrow> if isPolling s1 then schedule_poll s1 else s1)
      | Inl error \<Rightarrow>
          stopPolling (s\<lparr>errorMessage := or_str (error_message error) fetch_failed_message\<rparr>))"

definition startPolling :: "poller \<Rightarrow> poller" where
  "startPolling s =
     (if taskId s = [] \<or> isPolling s then s
      else poll_call (emit PollingStart
             (s\<lparr>isPolling := True, errorMessage := [], startTime := clock s\<rparr>)))"

definition initPolling :: "poller \<Rightarrow> poller" where
  "initPolling s = (if taskId s \<noteq> [] \<and> autoPoll s then startPolling s else s)"

text \<open>
  The callback of \<open>watch(() => props.taskId, ..)\<close>. The script registers it twice, with
  the same body (once before \<open>startPolling\<close> is declared and once after
  \<open>initPolling\<close>).
\<close>

definition watch_taskId :: "string \<Rightarrow> poller \<Rightarrow> poller" where
  "watch_taskId newTaskId s =
     (if newTaskId \<noteq> [] then initPolling s
      else (stopPolling s)\<lparr>statusInfo := None\<rparr>)"

subsection \<open>The component in its environment\<close>

text \<open>
  Running \<open>setup\<close>. Both watchers are \<open>immediate\<close>, so each callback runs once while the
  script is evaluated. With a non-empty task id the first one calls \<open>initPolling\<close> before
  that \<open>const\<close> is initialised: the call throws a ReferenceError inside the callback and
  the callback has no effect (a production build of Vue reports the error and goes on,
  which is what is modelled; a development build rethrows it). The host of this
  repository mounts the component with the empty task id.
\<close>

definition mount :: "string \<Rightarrow> bool \<Rightarrow> nat \<Rightarrow> nat \<Rightarrow> poller" where
  "mount tid auto interval now =
     (let s0 = \<lparr>taskId = tid, autoPoll = auto, pollInterval = interval,
                statusInfo = None, errorMessage = [], isPolling = False,
                pollTimer = None, startTime = 0, emitted = [],
                timers = [], nextTimer = 1, requests = [], clock = now\<rparr>;
          s1 = (if tid \<noteq> [] then s0 else watch_taskId tid s0)
      in watch_taskId tid s1)"

text \<open>
  What can happen to a mounted component: the host changes the \<open>taskId\<close> prop (both
  watchers run, in registration order, when the value differs; the change and the two
  callbacks are one step), the user presses one of the two buttons (the refresh button
  is disabled while polling or without a task id, the stop button is rendered only while
  polling), a pending timeout fires, a request in flight settles, time passes, or the
  component is unmounted.
\<close>

datatype action =
    SetTaskId string
  | ClickRefresh
  | ClickStop
  | TimerFires nat
  | Settles nat fetch_result
  | Elapse nat
  | Unmount

definition remove_nth :: "nat \<Rightarrow> 'a list \<Rightarrow> 'a list" where
  "remove_nth i xs = take i xs @ drop (Suc i) xs"

fun step :: "action \<Rightarrow> poller \<Rightarrow> poller" where
  "step (SetTaskId t) s =
     (if t = taskId s then s
      else watch_taskId t (watch_taskId t (s\<lparr>taskId := t\<rparr>)))"
| "step ClickRefresh s = (if isPolling s \<or> taskId s = [] then s else startPolling s)"
| "step ClickStop s = (if isPolling s then stopPolling s else s)"
| "step (TimerFires h) s =
     (if h \<in> fst ` set (timers s)
      then poll_call (s\<lparr>timers := filter (\<lambda>t. fst t \<noteq> h) (timers s)\<rparr>)
      else s)"
| "step (Settles i r) s =
     (if i < length (requests s)
      then poll_resume r (s\<lparr>requests := remove_nth i (requests s)\<rparr>)
      else s)"
| "step (Elapse d) s = s\<lparr>clock := clock s + d\<rparr>"
| "step Unmount s = stopPolling s"

fun run :: "action list \<Rightarrow> poller \<Rightarrow> poller" where
  "run [] s = s"
| "run (a # as) s = run as (step a s)"

text \<open>A payload that carries only a task id and a status.\<close>

definition payload :: "string \<Rightarrow> string \<Rightarrow> ProcessStatus" where
  "payload tid st =
     \<lparr>task_id = tid, status = st, progress = None, message = [],
      created_time = [], updated_time = []\<rparr>"

section \<open>Segment editor (RAGResultEditor component)\<close>

subsection \<open>Objects, arrays and JSON text\<close>

text \<open>
  The editor receives an array of segment objects from its host and hands arrays back
  through its events, so which objects are shared matters. Objects and arrays therefore
  live in a store, a list of cells addressed by position; a value is a primitive or a
  reference to a cell. A new cell is appended, so its address is fresh. An object is the
  list of its own properties in enumeration order (with distinct keys); \<open>undefined\<close> is
  never stored, a missing property is a missing key.
\<close>

type_synonym addr = nat

datatype val = VNull | VBool bool | VNum real | VStr string | VRef addr

datatype cell = CArr "val list" | CObj "(string \<times> val) list"

type_synonym store = "cell list"

text \<open>What a JSON text denotes.\<close>

datatype json =
    JNull
  | JBool bool
  | JNum real
  | JStr string
  | JArr "json list"
  | JObj "(string \<times> json) list"

text \<open>
  \<open>JSON.stringify\<close>. It walks the value and keeps the stack of the objects it is inside
  of; meeting one of them again it throws a TypeError (a circular structure), which is
  the result \<open>None\<close>. An address outside the store does not occur in a JavaScript state
  and is given the same result.
\<close>

function stringify :: "store \<Rightarrow> addr list \<Rightarrow> val \<Rightarrow> json option" where
  "stringify objs stack VNull = Some JNull"
| "stringify objs stack (VBool b) = Some (JBool b)"
| "stringify objs stack (VNum x) = Some (JNum x)"
| "stringify objs stack (VStr x) = Some (JStr x)"
| "stringify objs stack (VRef a) =
     (if a \<in> set stack \<or> length objs \<le> a then None
      else (case objs ! a of
              CArr vs \<Rightarrow>
                map_option JArr (those (map (stringify objs (a # stack)) vs))
            | CObj kvs \<Rightarrow>
                map_option JObj
                  (those (map (\<lambda>kv. map_option (Pair (fst kv))
                                       (stringify objs (a # stack) (snd kv))) kvs))))"
  by pat_completeness auto
termination
proof (relation "measure (\<lambda>(objs, stack, v). card ({..<length objs} - set stack))", goal_cases)
  case 1
  show ?case by simp
next
  case (2 objs stack a vs x)
  then have "a \<in> {..<length objs} - set stack" by simp
  then have "card ({..<length objs} - set stack - {a}) < card ({..<length objs} - set stack)"
    by (intro card_Diff1_less) simp_all
  moreover have "{..<length objs} - set (a # stack) = {..<length objs} - set stack - {a}"
    by auto
  ultimately show ?case by (simp only: in_measure prod.case)
next
  case (3 objs stack a kvs x)
  then have "a \<in> {..<length objs} - set stack" by simp
  then have "card ({..<length objs} - set stack - {a}) < card ({..<length objs} - set stack)"
    by (intro card_Diff1_less) simp_all
  moreover have "{..<length objs} - set (a # stack) = {..<length objs} - set stack - {a}"
    by auto
  ultimately show ?case by (simp only: in_measure prod.case)
qed

text \<open>\<open>JSON.parse\<close>: every array and object of the text becomes a new cell.\<close>

fun parse :: "json \<Rightarrow> store \<Rightarrow> val \<times> store"
  and parse_list :: "json list \<Rightarrow> store \<Rightarrow> val list \<times> store"
  and parse_props :: "(string \<times> json) list \<Rightarrow> store \<Rightarrow> (string \<times> val) list \<times> store" where
  "parse JNull objs = (VNull, objs)"
| "parse (JBool b) objs = (VBool b, objs)"
| "parse (JNum x) objs = (VNum x, objs)"
| "parse (JStr x) objs = (VStr x, objs)"
| "parse (JArr js) objs =
     (let (vs, objs') = parse_list js objs in (VRef (length objs'), objs' @ [CArr vs]))"
| "parse (JObj kjs) objs =
     (let (kvs, objs') = parse_props kjs objs in (VRef (length objs'), objs' @ [CObj kvs]))"
| "parse_list [] objs = ([], objs)"
| "parse_list (j # js) objs =
     (let (v, objs1) = parse j objs; (vs, objs2) = parse_list js objs1 in (v # vs, objs2))"
| "parse_props [] objs = ([], objs)"
| "parse_props ((k, j) # kjs) objs =
     (let (v, objs1) = parse j objs; (kvs, objs2) = parse_props kjs objs1
      in ((k, v) # kvs, objs2))"

subsection \<open>Reading values\<close>

text \<open>Truthiness of a value, and \<open>a || b\<close> where \<open>None\<close> stands for \<open>undefined\<close>.\<close>

fun truthy :: "val \<Rightarrow> bool" where
  "truthy VNull = False"
| "truthy (VBool b) = b"
| "truthy (VNum x) = (x \<noteq> 0)"
| "truthy (VStr x) = (x \<noteq> [])"
| "truthy (VRef a) = True"

definition or_opt :: "val option \<Rightarrow> val option \<Rightarrow> val option" where
  "or_opt a b = (case a of None \<Rightarrow> b | Some v \<Rightarrow> if truthy v then Some v else b)"

definition or_default :: "val option \<Rightarrow> val \<Rightarrow> val" where
  "or_default a d = (case a of None \<Rightarrow> d | Some v \<Rightarrow> if truthy v then v else d)"

text \<open>
  \<open>v.k\<close> for a value \<open>v\<close> other than \<open>null\<close>, for the property names the script reads
  (\<open>id\<close>, \<open>fileId\<close>, \<open>content\<close>, \<open>text\<close>, \<open>metadata\<close>, \<open>confidence\<close>): none of them is a
  property of an array or of a primitive.
\<close>

definition lookup :: "store \<Rightarrow> val \<Rightarrow> string \<Rightarrow> val option" where
  "lookup objs v k =
     (case v of
        VRef a \<Rightarrow>
          (if a < length objs
           then (case objs ! a of CObj kvs \<Rightarrow> map_of kvs k | CArr vs \<Rightarrow> None)
           else None)
      | _ \<Rightarrow> None)"

text \<open>\<open>x?.k\<close>, where \<open>x\<close> may be \<open>undefined\<close> or \<open>null\<close>.\<close>

definition opt_chain :: "store \<Rightarrow> val option \<Rightarrow> string \<Rightarrow> val option" where
  "opt_chain objs x k =
     (case x of None \<Rightarrow> None | Some VNull \<Rightarrow> None | Some v \<Rightarrow> lookup objs v k)"

text \<open>\<open>v[0]\<close> for a value \<open>v\<close> other than \<open>null\<close>.\<close>

definition index0 :: "store \<Rightarrow> val \<Rightarrow> val option" where
  "index0 objs v =
     (case v of
        VRef a \<Rightarrow>
          (if a < length objs
           then (case objs ! a of
                   CArr vs \<Rightarrow> (case vs of [] \<Rightarrow> None | x # _ \<Rightarrow> Some x)
                 | CObj kvs \<Rightarrow> map_of kvs ''0'')
           else None)
      | VStr x \<Rightarrow> (case x of [] \<Rightarrow> None | c # _ \<Rightarrow> Some (VStr [c]))
      | _ \<Rightarrow> None)"

text \<open>\<open>!v.length\<close> for a value \<open>v\<close> other than \<open>null\<close>.\<close>

definition no_length :: "store \<Rightarrow> val \<Rightarrow> bool" where
  "no_length objs v =
     (case v of
        VRef a \<Rightarrow>
          (if a < length objs
           then (case objs ! a of
                   CArr vs \<Rightarrow> vs = []
                 | CObj kvs \<Rightarrow>
                     (case map_of kvs ''length'' of None \<Rightarrow> True | Some l \<Rightarrow> \<not> truthy l))
           else True)
      | VStr x \<Rightarrow> x = []
      | _ \<Rightarrow> True)"

text \<open>Decimal digits of a number, for the template strings.\<close>

fun string_of_nat :: "nat \<Rightarrow> string" where
  "string_of_nat n =
     (if n < 10 then [char_of (48 + n)]
      else string_of_nat (n div 10) @ [char_of (48 + n mod 10)])"

declare string_of_nat.simps [simp del]

text \<open>The properties a spread \<open>...v\<close> copies into an object literal.\<close>

definition own_props :: "store \<Rightarrow> val \<Rightarrow> (string \<times> val) list" where
  "own_props objs v =
     (case v of
        VRef a \<Rightarrow>
          (if a < length objs
           then (case objs ! a of
                   CObj kvs \<Rightarrow> kvs
                 | CArr vs \<Rightarrow> zip (map string_of_nat [0..<length vs]) vs)
           else [])
      | VStr x \<Rightarrow> zip (map string_of_nat [0..<length x]) (map (\<lambda>c. VStr [c]) x)
      | _ \<Rightarrow> [])"

text \<open>Defining property \<open>k\<close> of an object: an existing key keeps its place.\<close>

fun set_prop :: "string \<Rightarrow> val \<Rightarrow> (string \<times> val) list \<Rightarrow> (string \<times> val) list" where
  "set_prop k v [] = [(k, v)]"
| "set_prop k v ((k', v') # kvs) =
     (if k = k' then (k, v) # kvs else (k', v') # set_prop k v kvs)"

subsection \<open>State of the editor\<close>

datatype message_type = MsgSuccess | MsgError | MsgInfo

record rag_config =
  chunkSize :: real
  cfg_overlap :: real
  llmModel :: string
  llmBackend :: string
  llmTimeout :: real

text \<open>\<open>RAGProcessRequest\<close> of \<open>api/api.ts\<close>, with the fields the editor always fills in.\<close>

record RAGProcessRequest =
  content :: string
  chunk_size :: real
  overlap :: real
  llm_model :: string
  llm_backend :: string
  llm_timeout :: real

datatype editor_event =
    SegmentsUpdate val
  | RagStart
  | RagSuccess val
  | RagError js_error
  | ExportRequest

text \<open>
  The props (\<open>segments\<close>, \<open>ragContent\<close>), the store, the refs of the script, and the
  environment: the events emitted so far, the segmentation requests in flight, the
  number of pending timeouts that end the progress display, and the clock.
\<close>

record editor =
  segments :: val
  ragContent :: "string option"
  objects :: store
  editedSegments :: val
  editingSegmentId :: val
  selectedSegments :: "string list"
  isProcessing :: bool
  processingProgress :: real
  processingMessage :: string
  showConfig :: bool
  showResultMessage :: bool
  resultMessageType :: message_type
  ragConfig :: rag_config
  events :: "editor_event list"
  rag_requests :: "RAGProcessRequest list"
  reset_timeouts :: nat
  now :: nat

definition emit_ed :: "editor_event \<Rightarrow> editor \<Rightarrow> editor" where
  "emit_ed e s = s\<lparr>events := events s @ [e]\<rparr>"

subsection \<open>Watchers and editing\<close>

text \<open>
  The callback of \<open>watch(() => props.segments, ..)\<close>. When \<open>JSON.stringify\<close> throws, the
  assignment is not reached.
\<close>

definition watch_segments :: "val \<Rightarrow> editor \<Rightarrow> editor" where
  "watch_segments newSegments s =
     (case stringify (objects s) [] newSegments of
        None \<Rightarrow> s
      | Some text \<Rightarrow>
          (let (copy, objs) = parse text (objects s)
           in s\<lparr>objects := objs, editedSegments := copy\<rparr>))"

text \<open>
  The callback of \<open>watch(() => props.ragContent, ..)\<close>. Reading \<open>length\<close> of \<open>null\<close>
  throws, and the callback has no effect.
\<close>

definition watch_ragContent :: "string option \<Rightarrow> editor \<Rightarrow> editor" where
  "watch_ragContent newContent s =
     (if newContent \<noteq> None \<and> newContent \<noteq> Some [] then
        (if segments s = VNull then s
         else if no_length (objects s) (segments s) then s\<lparr>showConfig := True\<rparr>
         else s)
      else s)"

definition editSegment :: "val \<Rightarrow> editor \<Rightarrow> editor" where
  "editSegment segmentId s =
     (if editingSegmentId s = segmentId
      then emit_ed (SegmentsUpdate (editedSegments s)) (s\<lparr>editingSegmentId := VStr []\<rparr>)
      else s\<lparr>editingSegmentId := segmentId\<rparr>)"

text \<open>\<open>mergeSegments\<close> writes one line to the console and does nothing else.\<close>

definition mergeSegments :: "editor \<Rightarrow> editor" where
  "mergeSegments s = s"

subsection \<open>A segmentation run\<close>

text \<open>The texts shown while a run is in progress: the source's literals, as UTF-8 bytes.\<close>

definition msg_preparing :: string where
  "msg_preparing =
     [CHR 0xE5, CHR 0x87, CHR 0x86, CHR 0xE5, CHR 0xA4, CHR 0x87,
      CHR 0x52, CHR 0x41, CHR 0x47, CHR 0xE5, CHR 0xA4, CHR 0x84,
      CHR 0xE7, CHR 0x90, CHR 0x86, CHR 0x2E, CHR 0x2E, CHR 0x2E]"

definition msg_sending :: string where
  "msg_sending =
     [CHR 0xE5, CHR 0x8F, CHR 0x91, CHR 0xE9, CHR 0x80, CHR 0x81,
      CHR 0xE8, CHR 0xAF, CHR 0xB7, CHR 0xE6, CHR 0xB1, CHR 0x82,
      CHR 0xE5, CHR 0x88, CHR 0xB0, CHR 0xE6, CHR 0x9C, CHR 0x8D,
      CHR 0xE5, CHR 0x8A, CHR 0xA1, CHR 0xE5, CHR 0x99, CHR 0xA8,
      CHR 0x2E, CHR 0x2E, CHR 0x2E]"

definition msg_processing :: string where
  "msg_processing =
     [CHR 0xE6, CHR 0xAD, CHR 0xA3, CHR 0xE5, CHR 0x9C, CHR 0xA8,
      CHR 0xE5, CHR 0xA4, CHR 0x84, CHR 0xE7, CHR 0x90, CHR 0x86,
      CHR 0xE5, CHR 0x88, CHR 0x86, CHR 0xE6, CHR 0xAE, CHR 0xB5,
      CHR 0x2E, CHR 0x2E, CHR 0x2E]"

definition msg_done :: string where
  "msg_done =
     [CHR 0x52, CHR 0x41, CHR 0x47, CHR 0xE5, CHR 0xA4, CHR 0x84,
      CHR 0xE7, CHR 0x90, CHR 0x86, CHR 0xE5, CHR 0xAE, CHR 0x8C,
      CHR 0xE6, CHR 0x88, CHR 0x90, CHR 0xEF, CHR 0xBC, CHR 0x81]"

definition msg_failed :: string where
  "msg_failed =
     [CHR 0xE5, CHR 0xA4, CHR 0x84, CHR 0xE7, CHR 0x90, CHR 0x86,
      CHR 0xE5, CHR 0xA4, CHR 0xB1, CHR 0xE8, CHR 0xB4, CHR 0xA5]"

definition null_property_message :: string where
  "null_property_message = ''Cannot read properties of null''"

definition not_a_function_message :: string where
  "not_a_function_message = ''segments.map is not a function''"

text \<open>
  \<open>processRAGContent\<close> is split at its \<open>await\<close>. \<open>processRAGContent_call\<close> runs when the
  function is called, up to the request; with no content or during a run it returns at
  once.
\<close>

definition processRAGContent_call :: "editor \<Rightarrow> editor" where
  "processRAGContent_call s =
     (case ragContent s of
        None \<Rightarrow> s
      | Some text \<Rightarrow>
          if text = [] \<or> isProcessing s then s
          else
            (let s1 = s\<lparr>isProcessing := True, processingProgress := 10,
                        processingMessage := msg_preparing, showResultMessage := False\<rparr>;
                 s2 = emit_ed RagStart s1;
                 s3 = s2\<lparr>processingProgress := 30, processingMessage := msg_sending\<rparr>;
                 request = \<lparr>content = text,
                            chunk_size = chunkSize (ragConfig s3),
                            overlap = cfg_overlap (ragConfig s3),
                            llm_model = llmModel (ragConfig s3),
                            llm_backend = llmBackend (ragConfig s3),
                            llm_timeout = llmTimeout (ragConfig s3)\<rparr>;
                 s4 = s3\<lparr>processingProgress := 50, processingMessage := msg_processing\<rparr>
             in s4\<lparr>rag_requests := rag_requests s4 @ [request]\<rparr>))"

text \<open>
  The callback of \<open>segments.map\<close>: it builds the metadata object and the segment object
  of one element of the response. It throws when the element, or \<open>props.segments\<close>, is
  \<open>null\<close>.
\<close>

definition format_segment :: "nat \<Rightarrow> val \<Rightarrow> store \<Rightarrow> val \<Rightarrow> nat \<Rightarrow> js_error + val \<times> store" where
  "format_segment t segs objs seg index =
     (if seg = VNull \<or> segs = VNull then Inl (TypeError null_property_message)
      else
        (let id = or_default (lookup objs seg ''id'')
                    (VStr (''rag-'' @ string_of_nat t @ ''-'' @ string_of_nat index));
             fileId = or_default (opt_chain objs (index0 objs segs) ''fileId'') (VStr []);
             content = or_default
                         (or_opt (lookup objs seg ''content'') (lookup objs seg ''text''))
                         (VStr []);
             md = lookup objs seg ''metadata'';
             spread = (case md of
                         None \<Rightarrow> []
                       | Some m \<Rightarrow> if truthy m then own_props objs m else []);
             confidence = or_default
                            (or_opt (opt_chain objs md ''confidence'')
                                    (lookup objs seg ''confidence''))
                            (VNum (9 / 10));
             metadata = CObj (set_prop ''confidence'' confidence spread);
             segmentData = CObj [(''id'', id), (''fileId'', fileId), (''content'', content),
                                 (''chunkIndex'', VNum (real index)),
                                 (''metadata'', VRef (length objs))]
         in Inr (VRef (Suc (length objs)), objs @ [metadata, segmentData])))"

fun format_all :: "nat \<Rightarrow> val \<Rightarrow> val list \<Rightarrow> nat \<Rightarrow> store \<Rightarrow> js_error + val list \<times> store" where
  "format_all t segs [] index objs = Inr ([], objs)"
| "format_all t segs (seg # rest) index objs =
     (case format_segment t segs objs seg index of
        Inl error \<Rightarrow> Inl error
      | Inr (v, objs1) \<Rightarrow>
          (case format_all t segs rest (Suc index) objs1 of
             Inl error \<Rightarrow> Inl error
           | Inr (vs, objs2) \<Rightarrow> Inr (v # vs, objs2)))"

text \<open>The elements of the response when it is an array; otherwise \<open>segments.map\<close> throws.\<close>

definition elements :: "store \<Rightarrow> val \<Rightarrow> js_error + val list" where
  "elements objs v =
     (case v of
        VNull \<Rightarrow> Inl (TypeError null_property_message)
      | VRef a \<Rightarrow>
          (if a < length objs
           then (case objs ! a of
                   CArr vs \<Rightarrow> Inr vs
                 | CObj kvs \<Rightarrow> Inl (TypeError not_a_function_message))
           else Inl (TypeError not_a_function_message))
      | _ \<Rightarrow> Inl (TypeError not_a_function_message))"

text \<open>The \<open>catch\<close> block.\<close>

definition processRAGContent_catch :: "js_error \<Rightarrow> editor \<Rightarrow> editor" where
  "processRAGContent_catch error s =
     (let s1 = s\<lparr>processingMessage := msg_failed, showResultMessage := True,
                 resultMessageType := MsgError\<rparr>;
          s2 = emit_ed (RagError error) s1
      in s2\<lparr>isProcessing := False, processingProgress := 0\<rparr>)"

text \<open>
  \<open>processRAGContent_resume\<close> is the rest of the body, run when the request settles:
  with the parsed body of the response, or with the error the request was rejected
  with. An exception in the \<open>try\<close> block leads to the \<open>catch\<close> block; the cells built
  before it are unreachable and are dropped.
\<close>

definition processRAGContent_resume :: "js_error + json \<Rightarrow> editor \<Rightarrow> editor" where
  "processRAGContent_resume r s =
     (case r of
        Inl error \<Rightarrow> processRAGContent_catch error s
      | Inr body \<Rightarrow>
          (let (response, objs1) = parse body (objects s) in
           case elements objs1 response of
             Inl error \<Rightarrow> processRAGContent_catch error s
           | Inr segs \<Rightarrow>
               (case format_all (now s) (segments s) segs 0 objs1 of
                  Inl error \<Rightarrow> processRAGContent_catch error s
                | Inr (vs, objs2) \<Rightarrow>
                    (let formattedSegments = VRef (length objs2);
                         s1 = s\<lparr>objects := objs2 @ [CArr vs],
                                 editedSegments := formattedSegments,
                                 processingProgress := 100, processingMessage := msg_done,
                                 showResultMessage := True, resultMessageType := MsgSuccess\<rparr>;
                         s2 = emit_ed (RagSuccess formattedSegments) s1;
                         s3 = emit_ed (SegmentsUpdate formattedSegments) s2
                     in s3\<lparr>reset_timeouts := Suc (reset_timeouts s3)\<rparr>))))"

text \<open>The callback of the timeout set after a successful run.\<close>

definition reset_processing :: "editor \<Rightarrow> editor" where
  "reset_processing s =
     s\<lparr>isProcessing := False, processingProgress := 0, processingMessage := []\<rparr>"

subsection \<open>The editor in its environment\<close>

text \<open>
  Running \<open>setup\<close>: the refs get their initial values (\<open>editedSegments\<close> a new empty
  array), and both watchers, being \<open>immediate\<close>, run once.
\<close>

definition mount_editor :: "val \<Rightarrow> string option \<Rightarrow> store \<Rightarrow> nat \<Rightarrow> editor" where
  "mount_editor segs rag objs t =
     (let s0 = \<lparr>segments = segs, ragContent = rag, objects = objs @ [CArr []],
                editedSegments = VRef (length objs), editingSegmentId = VStr [],
                selectedSegments = [], isProcessing = False, processingProgress = 0,
                processingMessage = [], showConfig = False, showResultMessage = False,
                resultMessageType = MsgInfo,
                ragConfig = \<lparr>chunkSize = 500, cfg_overlap = 50,
                              llmModel = ''deepseek-chat'', llmBackend = ''deepseek'',
                              llmTimeout = 60\<rparr>,
                events = [], rag_requests = [], reset_timeouts = 0, now = t\<rparr>
      in watch_ragContent rag (watch_segments segs s0))"

text \<open>
  What can happen to a mounted editor: the host passes another \<open>segments\<close> or
  \<open>ragContent\<close> prop (the watcher runs when the value differs), the user presses a button
  (the merge button is disabled with fewer than two selected segments), a segmentation
  request settles, the timeout after a successful run fires, or the host writes to an
  object or array it holds a reference to.
\<close>

datatype editor_action =
    SetSegments val
  | SetRagContent "string option"
  | ClickProcess
  | RagSettles nat "js_error + json"
  | ResetFires
  | ClickEdit val
  | ClickMerge
  | HostWrites addr cell

fun editor_step :: "editor_action \<Rightarrow> editor \<Rightarrow> editor" where
  "editor_step (SetSegments v) s =
     (if v = segments s then s else watch_segments v (s\<lparr>segments := v\<rparr>))"
| "editor_step (SetRagContent c) s =
     (if c = ragContent s then s else watch_ragContent c (s\<lparr>ragContent := c\<rparr>))"
| "editor_step ClickProcess s = processRAGContent_call s"
| "editor_step (RagSettles i r) s =
     (if i < length (rag_requests s)
      then processRAGContent_resume r (s\<lparr>rag_requests := remove_nth i (rag_requests s)\<rparr>)
      else s)"
| "editor_step ResetFires s =
     (if reset_timeouts s = 0 then s
      else reset_processing (s\<lparr>reset_timeouts := reset_timeouts s - 1\<rparr>))"
| "editor_step (ClickEdit v) s = editSegment v s"
| "editor_step ClickMerge s = (if length (selectedSegments s) < 2 then s else mergeSegments s)"
| "editor_step (HostWrites a c) s =
     (if a < length (objects s) then s\<lparr>objects := (objects s)[a := c]\<rparr> else s)"

fun editor_run :: "editor_action list \<Rightarrow> editor \<Rightarrow> editor" where
  "editor_run [] s = s"
| "editor_run (a # as) s = editor_run as (editor_step a s)"

text \<open>The working collection, read as the JSON text it would be written as.\<close>

definition collection :: "editor \<Rightarrow> json option" where
  "collection s = stringify (objects s) [] (editedSegments s)"

section \<open>Inputs used in the statements\<close>

text \<open>The statuses of a run without failure, in order.\<close>

definition happy_path :: "string list" where
  "happy_path =
     [''pending'', ''uploading'', ''processing_ocr'', ''cleaning'', ''processing_rag'',
      ''completed'']"

text \<open>The progress shown after each of a sequence of payloads has arrived.\<close>

fun feed :: "ProcessStatus list \<Rightarrow> poller \<Rightarrow> real list" where
  "feed [] s = []"
| "feed (st # sts) s =
     (let s' = poll_resume (Inr (Payload st)) s in displayProgress s' # feed sts s')"

text \<open>A poller mounted as the host mounts it: without a task id.\<close>

definition idle_poller :: poller where
  "idle_poller = mount [] True 2000 0"

text \<open>
  The host sets the task id \<open>job-1\<close>, the first payload says \<open>processing_ocr\<close>, and the
  timeout fires: after these steps the second request is in flight.
\<close>

definition job1_trace :: "action list" where
  "job1_trace =
     [SetTaskId ''job-1'', Settles 0 (Inr (Payload (payload ''job-1'' ''processing_ocr''))),
      TimerFires 1]"

text \<open>A segment as the host holds it, and a host array of three segments.\<close>

definition segment :: "string \<Rightarrow> string \<Rightarrow> json" where
  "segment i c =
     JObj [(''id'', JStr i), (''content'', JStr c), (''metadata'', JObj [(''page'', JNum 1)])]"

definition three_segments :: json where
  "three_segments = JArr [segment ''a'' ''x'', segment ''b'' ''y'', segment ''c'' ''z'']"

text \<open>An editor mounted on that array, with no text to segment.\<close>

definition abc_editor :: editor where
  "abc_editor =
     (let (segs, objs) = parse three_segments [] in mount_editor segs None objs 0)"

text \<open>An editor mounted on the empty array the host starts with, with a text to segment.\<close>

definition hello_editor :: editor where
  "hello_editor = mount_editor (VRef 0) (Some ''hello world'') [CArr []] 0"

section \<open>Notions used in the proofs\<close>

text \<open>
  \<open>same_above n m g h\<close>: the store \<open>g\<close> has the cells of \<open>h\<close> at the addresses from \<open>n\<close> up
  to \<open>m\<close>, which are all addresses of \<open>h\<close>; below \<open>n\<close> it may hold anything.
\<close>

definition same_above :: "nat \<Rightarrow> nat \<Rightarrow> store \<Rightarrow> store \<Rightarrow> bool" where
  "same_above n m g h \<longleftrightarrow>
     m \<le> length g \<and> m \<le> length h \<and> (\<forall>a. n \<le> a \<and> a < m \<longrightarrow> g ! a = h ! a)"

text \<open>\<open>outside stack n m\<close>: no address of the stack lies from \<open>n\<close> up to \<open>m\<close>.\<close>

definition outside :: "addr list \<Rightarrow> nat \<Rightarrow> nat \<Rightarrow> bool" where
  "outside stack n m \<longleftrightarrow> (\<forall>a \<in> set stack. a < n \<or> m \<le> a)"

section \<open>Properties of the poller\<close>

lemmas poller_defs =
  watch_taskId_def initPolling_def startPolling_def poll_call_def poll_resume_def
  schedule_poll_def stopPolling_def emit_def setTimeout_def clearTimeout_def remove_nth_def
  payload_def Let_def

subsection \<open>What \<open>stopPolling\<close> and a settled request leave behind\<close>

lemma statusInfo_stopPolling [simp]: "statusInfo (stopPolling s) = statusInfo s"
  by (simp add: stopPolling_def Let_def clearTimeout_def emit_def split: option.splits)

lemma isPolling_stopPolling [simp]: "isPolling (stopPolling s) = False"
  by (simp add: stopPolling_def Let_def clearTimeout_def emit_def split: option.splits)

lemma emitted_stopPolling [simp]: "emitted (stopPolling s) = emitted s @ [PollingStop]"
  by (simp add: stopPolling_def Let_def clearTimeout_def emit_def split: option.splits)

lemma requests_stopPolling [simp]: "requests (stopPolling s) = requests s"
  by (simp add: stopPolling_def Let_def clearTimeout_def emit_def split: option.splits)

lemma nextTimer_stopPolling [simp]: "nextTimer (stopPolling s) = nextTimer s"
  by (simp add: stopPolling_def Let_def clearTimeout_def emit_def split: option.splits)

lemma errorMessage_stopPolling [simp]: "errorMessage (stopPolling s) = errorMessage s"
  by (simp add: stopPolling_def Let_def clearTimeout_def emit_def split: option.splits)

lemma timers_stopPolling:
  "timers (stopPolling s) =
     (case pollTimer s of
        None \<Rightarrow> timers s
      | Some h \<Rightarrow> if h = 0 then timers s else filter (\<lambda>t. fst t \<noteq> h) (timers s))"
  by (simp add: stopPolling_def Let_def clearTimeout_def emit_def split: option.splits)

lemma pollTimer_stopPolling:
  "pollTimer (stopPolling s) =
     (case pollTimer s of None \<Rightarrow> None | Some h \<Rightarrow> if h = 0 then Some 0 else None)"
  by (simp add: stopPolling_def Let_def clearTimeout_def emit_def split: option.splits)

lemma stopPolling_idle:
  "\<not> isPolling s \<Longrightarrow> pollTimer s = None \<Longrightarrow>
     stopPolling s = s\<lparr>emitted := emitted s @ [PollingStop]\<rparr>"
  by (simp add: stopPolling_def Let_def emit_def)

lemma statusInfo_poll_resume [simp]: "statusInfo (poll_resume (Inr data) s) = Some data"
  by (simp add: poll_resume_def schedule_poll_def Let_def setTimeout_def emit_def
      split: response_data.splits)

lemma poll_resume_completed:
  "status st = ''completed'' \<Longrightarrow>
     poll_resume (Inr (Payload st)) s =
       emit (TaskCompleted st)
         (stopPolling (emit (StatusUpdate (Payload st)) (s\<lparr>statusInfo := Some (Payload st)\<rparr>)))"
  by (simp add: poll_resume_def Let_def)

lemma poll_resume_failed:
  "status st = ''failed'' \<Longrightarrow>
     poll_resume (Inr (Payload st)) s =
       emit (TaskFailed st)
         (stopPolling (emit (StatusUpdate (Payload st)) (s\<lparr>statusInfo := Some (Payload st)\<rparr>)))"
  by (simp add: poll_resume_def Let_def)

lemma poll_resume_rejected:
  "poll_resume (Inl error) s =
     stopPolling (s\<lparr>errorMessage := or_str (error_message error) fetch_failed_message\<rparr>)"
  by (simp add: poll_resume_def)

subsection \<open>Progress projection\<close>

lemma displayProgress_statusInfo:
  "statusInfo s = statusInfo s' \<Longrightarrow> displayProgress s = displayProgress s'"
  by (simp add: displayProgress_def currentStatus_def split: option.splits)

lemma displayProgress_poll_resume:
  "displayProgress (poll_resume (Inr (Payload st)) s)
     = displayProgress (s\<lparr>statusInfo := Some (Payload st)\<rparr>)"
  by (rule displayProgress_statusInfo) simp

lemma displayProgress_status:
  "displayProgress (s\<lparr>statusInfo := Some (Payload st)\<rparr>) =
     (case progress st of
        Some p \<Rightarrow> min p 100
      | None \<Rightarrow>
          or_num (map_of statusProgress (if status st = [] then ''pending'' else status st)) 0)"
  by (simp add: displayProgress_def currentStatus_def or_str_def split: option.splits)

text \<open>
  C6, as the code has it. When the payload carries \<open>progress\<close>, the percentage shown is
  that value capped at 100: this is the value clamped to the interval from 0 to 100
  whenever it is not negative, and no lower bound is applied to a negative one. When the
  payload carries no \<open>progress\<close>, the percentage is read from the table pending 0,
  uploading 20, processing_ocr 40, cleaning 60, processing_rag 80, completed 100,
  failed 100.
\<close>

theorem progress_capped_or_table:
  "displayProgress (s\<lparr>statusInfo := Some (Payload (st\<lparr>progress := Some p\<rparr>))\<rparr>) = min p 100
   \<and> (0 \<le> p \<longrightarrow>
        displayProgress (s\<lparr>statusInfo := Some (Payload (st\<lparr>progress := Some p\<rparr>))\<rparr>)
          = max 0 (min p 100))
   \<and> map (\<lambda>x. displayProgress
                (s\<lparr>statusInfo := Some (Payload (st\<lparr>status := x, progress := None\<rparr>))\<rparr>))
         [''pending'', ''uploading'', ''processing_ocr'', ''cleaning'', ''processing_rag'',
          ''completed'', ''failed'']
       = [0, 20, 40, 60, 80, 100, 100]"
  by (simp add: displayProgress_status statusProgress_def or_num_def)

theorem progress_capped_or_table_witness:
  "(0::real) \<le> 150
   \<and> displayProgress (idle_poller
         \<lparr>statusInfo := Some (Payload ((payload ''job-1'' ''cleaning'')\<lparr>progress := Some 150\<rparr>))\<rparr>)
       = 100"
  using progress_capped_or_table [where s = idle_poller
      and st = "payload ''job-1'' ''cleaning''" and p = 150]
  by simp

text \<open>
  C6 as stated fails: a payload with \<open>progress = -5\<close> is shown as \<open>-5\<close>, where the clamp
  to the interval from 0 to 100 gives 0.
\<close>

theorem progress_not_clamped_below_counterexample:
  "displayProgress (idle_poller
     \<lparr>statusInfo := Some (Payload ((payload ''job-1'' ''cleaning'')\<lparr>progress := Some (- 5)\<rparr>))\<rparr>)
     = - 5
   \<and> max 0 (min (- 5) 100) = (0::real)"
  by (simp add: displayProgress_status)

text \<open>
  C9. Feeding the statuses pending, uploading, processing_ocr, cleaning, processing_rag,
  completed, each without a \<open>progress\<close> field, to a poller in any state shows the
  percentages 0, 20, 40, 60, 80, 100: they never decrease, and the last one is 100.
\<close>

theorem happy_path_progress:
  "feed (map (\<lambda>x. st\<lparr>status := x, progress := None\<rparr>) happy_path) s = [0, 20, 40, 60, 80, 100]
   \<and> sorted (feed (map (\<lambda>x. st\<lparr>status := x, progress := None\<rparr>) happy_path) s)
   \<and> last (feed (map (\<lambda>x. st\<lparr>status := x, progress := None\<rparr>) happy_path) s) = 100"
proof -
  have "feed (map (\<lambda>x. st\<lparr>status := x, progress := None\<rparr>) happy_path) s
          = [0, 20, 40, 60, 80, 100]"
    by (simp add: happy_path_def Let_def displayProgress_poll_resume displayProgress_status
        statusProgress_def or_num_def)
  then show ?thesis by simp
qed

text \<open>
  C10. For a payload with status \<open>processing\<close> and no \<open>progress\<close> field, the current
  step is \<open>processing_ocr\<close> and the percentage shown is 0: the progress table has no
  entry for \<open>processing\<close>.
\<close>

theorem processing_alias_progress:
  "currentStep
     (s\<lparr>statusInfo := Some (Payload (st\<lparr>status := ''processing'', progress := None\<rparr>))\<rparr>)
     = ''processing_ocr''
   \<and> displayProgress
     (s\<lparr>statusInfo := Some (Payload (st\<lparr>status := ''processing'', progress := None\<rparr>))\<rparr>)
     = 0"
  by (simp add: currentStep_def currentStatus_def statusToStep_def or_str_def
      displayProgress_status statusProgress_def or_num_def)

subsection \<open>Halting\<close>

text \<open>
  C3, as the code has it. \<open>stopPolling\<close> has no check for an active session: a call with
  no active session (not polling, no timer held) changes nothing but the event log, to
  which it appends one \<open>polling-stop\<close> event; and a second call in a row leaves the
  state of the first, with one more \<open>polling-stop\<close> event.
\<close>

theorem halt_without_session:
  "stopPolling (stopPolling s) =
     (stopPolling s)\<lparr>emitted := emitted s @ [PollingStop, PollingStop]\<rparr>
   \<and> (\<not> isPolling s \<and> pollTimer s = None \<longrightarrow>
        stopPolling s = s\<lparr>emitted := emitted s @ [PollingStop]\<rparr>)"
proof -
  have "stopPolling (stopPolling s) =
          (stopPolling s)\<lparr>emitted := emitted (stopPolling s) @ [PollingStop]\<rparr>"
    by (simp add: stopPolling_def Let_def clearTimeout_def emit_def split: option.splits)
  then show ?thesis by (simp add: stopPolling_idle)
qed

theorem halt_without_session_witness:
  "\<not> isPolling idle_poller \<and> pollTimer idle_poller = None
   \<and> stopPolling idle_poller =
       idle_poller\<lparr>emitted := [PollingStop, PollingStop, PollingStop]\<rparr>"
  using halt_without_session [of idle_poller]
  by (simp add: idle_poller_def mount_def watch_taskId_def stopPolling_def emit_def)

text \<open>
  C3 as stated fails: on a poller that never began, each call of \<open>stopPolling\<close> emits a
  \<open>polling-stop\<close> event (the two events before them come from the two watchers, which
  call \<open>stopPolling\<close> when the component is set up without a task id).
\<close>

theorem halt_emits_counterexample:
  "emitted idle_poller = [PollingStop, PollingStop]
   \<and> emitted (stopPolling idle_poller) = [PollingStop, PollingStop, PollingStop]
   \<and> emitted (stopPolling (stopPolling idle_poller)) =
       [PollingStop, PollingStop, PollingStop, PollingStop]"
  by (simp add: idle_poller_def mount_def watch_taskId_def stopPolling_def emit_def)

subsection \<open>A request that fails\<close>

lemma errorMessage_rejected:
  "errorMessage (poll_resume (Inl error) s) = or_str (error_message error) fetch_failed_message"
  by (simp add: poll_resume_rejected)

text \<open>
  C4, as the code has it. When a status request is rejected (no answer, or an answer
  with an error status), the catch branch records the message of the error, or the fixed
  text when the error has no message or an empty one; the poller is no longer polling,
  one \<open>polling-stop\<close> event is emitted, no request is issued and no timeout is set: the
  only change to the pending timeouts is that the one the poller holds is cancelled.
  Whatever is delivered to the halted poller afterwards sets no timeout and issues no
  request either.
\<close>

theorem fetch_failure_is_terminal:
  "errorMessage (poll_resume (Inl (RequestError (Some (c # m)))) s) = c # m
   \<and> errorMessage (poll_resume (Inl (RequestError (Some []))) s) = fetch_failed_message
   \<and> errorMessage (poll_resume (Inl (RequestError None)) s) = fetch_failed_message
   \<and> errorMessage (poll_resume (Inl (TypeError (c # m))) s) = c # m
   \<and> \<not> isPolling (poll_resume (Inl error) s)
   \<and> statusInfo (poll_resume (Inl error) s) = statusInfo s
   \<and> emitted (poll_resume (Inl error) s) = emitted s @ [PollingStop]
   \<and> requests (poll_resume (Inl error) s) = requests s
   \<and> nextTimer (poll_resume (Inl error) s) = nextTimer s
   \<and> timers (poll_resume (Inl error) s) =
       (case pollTimer s of
          None \<Rightarrow> timers s
        | Some h \<Rightarrow> if h = 0 then timers s else filter (\<lambda>t. fst t \<noteq> h) (timers s))
   \<and> timers (poll_resume (Inr data) (poll_resume (Inl error) s))
       = timers (poll_resume (Inl error) s)
   \<and> requests (poll_resume (Inr data) (poll_resume (Inl error) s)) = requests s"
proof -
  let ?s' = "poll_resume (Inl error) s"
  have later_t: "timers (poll_resume (Inr data) ?s') = timers ?s'"
    unfolding poll_resume_rejected
    by (simp add: poll_resume_def schedule_poll_def Let_def emit_def timers_stopPolling
        pollTimer_stopPolling split: option.splits response_data.splits)
  have later_r: "requests (poll_resume (Inr data) ?s') = requests s"
    unfolding poll_resume_rejected
    by (simp add: poll_resume_def schedule_poll_def Let_def emit_def
        split: response_data.splits)
  have msg: "errorMessage (poll_resume (Inl (RequestError (Some (c # m)))) s) = c # m"
    "errorMessage (poll_resume (Inl (RequestError (Some []))) s) = fetch_failed_message"
    "errorMessage (poll_resume (Inl (RequestError None)) s) = fetch_failed_message"
    "errorMessage (poll_resume (Inl (TypeError (c # m))) s) = c # m"
    by (simp_all add: errorMessage_rejected or_str_def)
  show ?thesis
    using later_t later_r msg
    by (simp add: poll_resume_rejected timers_stopPolling split: option.splits)
qed

theorem fetch_failure_is_terminal_witness:
  "isPolling (step (SetTaskId ''job-1'') idle_poller)
   \<and> errorMessage (poll_resume (Inl (RequestError (Some ''Network Error'')))
        (step (SetTaskId ''job-1'') idle_poller)) = ''Network Error''
   \<and> \<not> isPolling (poll_resume (Inl (RequestError (Some ''Network Error'')))
        (step (SetTaskId ''job-1'') idle_poller))
   \<and> emitted (poll_resume (Inl (RequestError (Some ''Network Error'')))
        (step (SetTaskId ''job-1'') idle_poller))
       = [PollingStop, PollingStop, PollingStart, PollingStop]
   \<and> timers (poll_resume (Inl (RequestError (Some ''Network Error'')))
        (step (SetTaskId ''job-1'') idle_poller)) = []
   \<and> requests (step (Settles 0 (Inl (RequestError (Some ''Network Error''))))
        (step (SetTaskId ''job-1'') idle_poller)) = []
   \<and> errorMessage (poll_resume (Inl (RequestError None))
        (step (SetTaskId ''job-1'') idle_poller)) = fetch_failed_message"
  using fetch_failure_is_terminal [where s = "step (SetTaskId ''job-1'') idle_poller"
      and c = "CHR ''N''" and m = "''etwork Error''"
      and error = "RequestError (Some ''Network Error'')"]
  by (simp add: idle_poller_def mount_def poller_defs or_str_def)

text \<open>
  C4 as stated fails for a body that cannot be parsed. The request is fulfilled with the
  body as a string: the poller stores and announces it, records no error, stays polling
  and sets the next timeout; when that fires the next request goes out, and the same
  happens again.
\<close>

theorem unparsed_body_keeps_polling_counterexample:
  "errorMessage (run [SetTaskId ''job-1'', Settles 0 (Inr (RawText ''<html>''))] idle_poller) = []
   \<and> isPolling (run [SetTaskId ''job-1'', Settles 0 (Inr (RawText ''<html>''))] idle_poller)
   \<and> timers (run [SetTaskId ''job-1'', Settles 0 (Inr (RawText ''<html>''))] idle_poller)
       = [(1, 2000)]
   \<and> emitted (run [SetTaskId ''job-1'', Settles 0 (Inr (RawText ''<html>''))] idle_poller)
       = [PollingStop, PollingStop, PollingStart, StatusUpdate (RawText ''<html>'')]
   \<and> requests (run [SetTaskId ''job-1'', Settles 0 (Inr (RawText ''<html>'')), TimerFires 1]
        idle_poller) = [''job-1'']
   \<and> isPolling (run [SetTaskId ''job-1'', Settles 0 (Inr (RawText ''<html>'')), TimerFires 1,
        Settles 0 (Inr (RawText ''<html>''))] idle_poller)
   \<and> timers (run [SetTaskId ''job-1'', Settles 0 (Inr (RawText ''<html>'')), TimerFires 1,
        Settles 0 (Inr (RawText ''<html>''))] idle_poller) = [(2, 2000)]
   \<and> errorMessage (run [SetTaskId ''job-1'', Settles 0 (Inr (RawText ''<html>'')), TimerFires 1,
        Settles 0 (Inr (RawText ''<html>''))] idle_poller) = []"
  by (simp add: idle_poller_def mount_def poller_defs)

subsection \<open>A job that ends\<close>

text \<open>
  C5, as the code has it. A payload with status \<open>completed\<close> is stored and announced,
  the poller halts, and exactly one \<open>task-completed\<close> event follows; no timeout is set and
  no request is issued; the only change to the pending timeouts is that the one the
  poller holds is cancelled. The percentage shown afterwards is 100 when the payload carries
  no \<open>progress\<close> field, and otherwise that field capped at 100. A payload with status
  \<open>failed\<close> does the same with one \<open>task-failed\<close> event, and leaves the error message
  alone, which a rejected request sets.
\<close>

theorem terminal_status_halts:
  "(status st = ''completed'' \<longrightarrow>
      emitted (poll_resume (Inr (Payload st)) s)
        = emitted s @ [StatusUpdate (Payload st), PollingStop, TaskCompleted st]
      \<and> \<not> isPolling (poll_resume (Inr (Payload st)) s)
      \<and> nextTimer (poll_resume (Inr (Payload st)) s) = nextTimer s
      \<and> requests (poll_resume (Inr (Payload st)) s) = requests s
      \<and> length (timers (poll_resume (Inr (Payload st)) s)) \<le> length (timers s)
      \<and> timers (poll_resume (Inr (Payload st)) s) =
          (case pollTimer s of
             None \<Rightarrow> timers s
           | Some h \<Rightarrow> if h = 0 then timers s else filter (\<lambda>t. fst t \<noteq> h) (timers s))
      \<and> errorMessage (poll_resume (Inr (Payload st)) s) = errorMessage s
      \<and> displayProgress (poll_resume (Inr (Payload st)) s) =
          (case progress st of None \<Rightarrow> 100 | Some p \<Rightarrow> min p 100))
   \<and> (status st = ''failed'' \<longrightarrow>
      emitted (poll_resume (Inr (Payload st)) s)
        = emitted s @ [StatusUpdate (Payload st), PollingStop, TaskFailed st]
      \<and> \<not> isPolling (poll_resume (Inr (Payload st)) s)
      \<and> nextTimer (poll_resume (Inr (Payload st)) s) = nextTimer s
      \<and> requests (poll_resume (Inr (Payload st)) s) = requests s
      \<and> length (timers (poll_resume (Inr (Payload st)) s)) \<le> length (timers s)
      \<and> timers (poll_resume (Inr (Payload st)) s) =
          (case pollTimer s of
             None \<Rightarrow> timers s
           | Some h \<Rightarrow> if h = 0 then timers s else filter (\<lambda>t. fst t \<noteq> h) (timers s))
      \<and> errorMessage (poll_resume (Inr (Payload st)) s) = errorMessage s)"
proof (intro conjI impI)
  assume c: "status st = ''completed''"
  show "displayProgress (poll_resume (Inr (Payload st)) s) =
          (case progress st of None \<Rightarrow> 100 | Some p \<Rightarrow> min p 100)"
    by (simp add: displayProgress_poll_resume displayProgress_status c statusProgress_def
        or_num_def split: option.splits)
qed (simp_all add: poll_resume_completed poll_resume_failed emit_def timers_stopPolling
      split: option.splits)

lemma job1_before_completion:
  "run job1_trace idle_poller =
     \<lparr>taskId = ''job-1'', autoPoll = True, pollInterval = 2000,
      statusInfo = Some (Payload (payload ''job-1'' ''processing_ocr'')),
      errorMessage = [], isPolling = True, pollTimer = Some 1, startTime = 0,
      emitted = [PollingStop, PollingStop, PollingStart,
                 StatusUpdate (Payload (payload ''job-1'' ''processing_ocr''))],
      timers = [], nextTimer = 2, requests = [''job-1''], clock = 0\<rparr>"
  by (simp add: job1_trace_def idle_poller_def mount_def poller_defs)

theorem terminal_status_halts_witness:
  "status (payload ''job-1'' ''completed'') = ''completed''
   \<and> emitted (poll_resume (Inr (Payload (payload ''job-1'' ''completed'')))
        (run job1_trace idle_poller))
       = [PollingStop, PollingStop, PollingStart,
          StatusUpdate (Payload (payload ''job-1'' ''processing_ocr'')),
          StatusUpdate (Payload (payload ''job-1'' ''completed'')), PollingStop,
          TaskCompleted (payload ''job-1'' ''completed'')]
   \<and> displayProgress (poll_resume (Inr (Payload (payload ''job-1'' ''completed'')))
        (run job1_trace idle_poller)) = 100
   \<and> timers (poll_resume (Inr (Payload (payload ''job-1'' ''completed'')))
        (run job1_trace idle_poller)) = []
   \<and> requests (step (Settles 0 (Inr (Payload (payload ''job-1'' ''completed''))))
        (run job1_trace idle_poller)) = []
   \<and> status (payload ''job-1'' ''failed'') = ''failed''
   \<and> emitted (poll_resume (Inr (Payload (payload ''job-1'' ''failed'')))
        (run job1_trace idle_poller))
       = [PollingStop, PollingStop, PollingStart,
          StatusUpdate (Payload (payload ''job-1'' ''processing_ocr'')),
          StatusUpdate (Payload (payload ''job-1'' ''failed'')), PollingStop,
          TaskFailed (payload ''job-1'' ''failed'')]"
  using terminal_status_halts [where st = "payload ''job-1'' ''completed''"
      and s = "run job1_trace idle_poller"]
    terminal_status_halts [where st = "payload ''job-1'' ''failed''"
      and s = "run job1_trace idle_poller"]
  by (simp add: job1_before_completion poller_defs displayProgress_def currentStatus_def
      or_str_def or_num_def statusProgress_def)

text \<open>
  C5 as stated fails in its last part: when the \<open>completed\<close> payload carries
  \<open>progress = 50\<close>, the percentage shown at the end of the session is 50.
\<close>

theorem completed_below_100_counterexample:
  "status ((payload ''job-1'' ''completed'')\<lparr>progress := Some 50\<rparr>) = ''completed''
   \<and> displayProgress
        (step (Settles 0 (Inr (Payload ((payload ''job-1'' ''completed'')\<lparr>progress := Some 50\<rparr>))))
           (run job1_trace idle_poller)) = 50"
  by (simp add: job1_before_completion poller_defs displayProgress_def)

subsection \<open>A change of the task id\<close>

text \<open>
  C2, as the code has it. When the \<open>taskId\<close> prop changes to another non-empty id while
  the poller is polling, both watchers reach \<open>startPolling\<close>, which returns at once
  because the poller is polling: nothing but the prop changes (no event is emitted, the
  timeout and the requests in flight stay), and the next call of \<open>poll\<close> requests the
  status of the new id.
\<close>

theorem taskId_change_keeps_session:
  assumes "isPolling s" and "t \<noteq> []" and "t \<noteq> taskId s"
  shows "step (SetTaskId t) s = s\<lparr>taskId := t\<rparr>
         \<and> requests (poll_call (step (SetTaskId t) s)) = requests s @ [t]"
  using assms by (simp add: watch_taskId_def initPolling_def startPolling_def poll_call_def)

theorem taskId_change_keeps_session_witness:
  "isPolling (step (SetTaskId ''job-A'') idle_poller) \<and> ''job-B'' \<noteq> []
   \<and> ''job-B'' \<noteq> taskId (step (SetTaskId ''job-A'') idle_poller)
   \<and> emitted (step (SetTaskId ''job-A'') idle_poller) = [PollingStop, PollingStop, PollingStart]
   \<and> emitted (run [SetTaskId ''job-A'', SetTaskId ''job-B''] idle_poller)
       = [PollingStop, PollingStop, PollingStart]
   \<and> requests (poll_call (run [SetTaskId ''job-A'', SetTaskId ''job-B''] idle_poller))
       = [''job-A'', ''job-B'']"
  using taskId_change_keeps_session [of "step (SetTaskId ''job-A'') idle_poller" "''job-B''"]
  by (simp add: idle_poller_def mount_def poller_defs)

text \<open>
  C2 as stated fails. The poller polls for \<open>job-A\<close> and its first request is in flight
  when the task id changes to \<open>job-B\<close>: no \<open>polling-stop\<close> and no second
  \<open>polling-start\<close> is emitted at the change, and when the request for \<open>job-A\<close> is
  answered, the payload of \<open>job-A\<close> is stored and announced although the task id is
  \<open>job-B\<close>.
\<close>

theorem stale_update_counterexample:
  "isPolling (step (SetTaskId ''job-A'') idle_poller)
   \<and> requests (step (SetTaskId ''job-A'') idle_poller) = [''job-A'']
   \<and> emitted (step (SetTaskId ''job-A'') idle_poller) = [PollingStop, PollingStop, PollingStart]
   \<and> emitted (run [SetTaskId ''job-A'', SetTaskId ''job-B''] idle_poller)
       = [PollingStop, PollingStop, PollingStart]
   \<and> taskId (run [SetTaskId ''job-A'', SetTaskId ''job-B'',
                  Settles 0 (Inr (Payload (payload ''job-A'' ''cleaning'')))] idle_poller) = ''job-B''
   \<and> statusInfo (run [SetTaskId ''job-A'', SetTaskId ''job-B'',
                  Settles 0 (Inr (Payload (payload ''job-A'' ''cleaning'')))] idle_poller)
       = Some (Payload (payload ''job-A'' ''cleaning''))
   \<and> emitted (run [SetTaskId ''job-A'', SetTaskId ''job-B'',
                  Settles 0 (Inr (Payload (payload ''job-A'' ''cleaning'')))] idle_poller)
       = [PollingStop, PollingStop, PollingStart,
          StatusUpdate (Payload (payload ''job-A'' ''cleaning''))]"
  by (simp add: idle_poller_def mount_def poller_defs)

section \<open>Properties of the editor\<close>

subsection \<open>\<open>JSON.parse\<close> builds new cells, and \<open>JSON.stringify\<close> reads them back\<close>

lemma parse_extends:
  "parse j h = (v, h') \<Longrightarrow> \<exists>ext. h' = h @ ext"
  "parse_list js h = (vs, h') \<Longrightarrow> \<exists>ext. h' = h @ ext"
  "parse_props kjs h = (kvs, h') \<Longrightarrow> \<exists>ext. h' = h @ ext"
proof (induction j h and js h and kjs h arbitrary: v h' and vs h' and kvs h'
    rule: parse_parse_list_parse_props.induct)
  case (5 js h)
  then show ?case by (fastforce split: prod.splits)
next
  case (6 kjs h)
  then show ?case by (fastforce split: prod.splits)
next
  case (8 j js h)
  then show ?case by (fastforce split: prod.splits)
next
  case (10 k j kjs h)
  then show ?case by (fastforce split: prod.splits)
qed simp_all

lemma parse_length:
  "parse j h = (v, h') \<Longrightarrow> length h \<le> length h'"
  "parse_list js h = (vs, h') \<Longrightarrow> length h \<le> length h'"
  "parse_props kjs h = (kvs, h') \<Longrightarrow> length h \<le> length h'"
  using parse_extends by fastforce+

lemma parse_nth_old:
  "parse j h = (v, h') \<Longrightarrow> a < length h \<Longrightarrow> h' ! a = h ! a"
  "parse_list js h = (vs, h') \<Longrightarrow> a < length h \<Longrightarrow> h' ! a = h ! a"
  "parse_props kjs h = (kvs, h') \<Longrightarrow> a < length h \<Longrightarrow> h' ! a = h ! a"
  using parse_extends by (fastforce simp: nth_append)+

lemma same_above_split:
  assumes "same_above n m g h2" and "n \<le> k" and "k \<le> m" and "k \<le> length h1"
    and "\<And>a. a < k \<Longrightarrow> h2 ! a = h1 ! a"
  shows "same_above n k g h1" and "same_above k m g h2"
  using assms unfolding same_above_def by auto

lemma outside_split:
  assumes "outside stack n m" and "n \<le> k" and "k \<le> m"
  shows "outside stack n k" and "outside stack k m"
  using assms unfolding outside_def by auto

lemma stringify_parse:
  "parse j h = (v, h') \<Longrightarrow> same_above (length h) (length h') g h' \<Longrightarrow>
     outside stack (length h) (length h') \<Longrightarrow> stringify g stack v = Some j"
  "parse_list js h = (vs, h') \<Longrightarrow> same_above (length h) (length h') g h' \<Longrightarrow>
     outside stack (length h) (length h') \<Longrightarrow> those (map (stringify g stack) vs) = Some js"
  "parse_props kjs h = (kvs, h') \<Longrightarrow> same_above (length h) (length h') g h' \<Longrightarrow>
     outside stack (length h) (length h') \<Longrightarrow>
     those (map (\<lambda>kv. map_option (Pair (fst kv)) (stringify g stack (snd kv))) kvs) = Some kjs"
proof (induction j h and js h and kjs h
    arbitrary: v h' g stack and vs h' g stack and kvs h' g stack
    rule: parse_parse_list_parse_props.induct)
  case (5 js h)
  obtain vs h1 where pl: "parse_list js h = (vs, h1)" by (cases "parse_list js h")
  with 5(2) have v: "v = VRef (length h1)" and h': "h' = h1 @ [CArr vs]" by simp_all
  have len: "length h \<le> length h1" using parse_length(2) [OF pl] .
  have same: "same_above (length h) (length h1) g h1"
    using 5(3) len unfolding same_above_def h' by (auto simp: nth_append)
  have out: "outside (length h1 # stack) (length h) (length h1)"
    using 5(4) unfolding outside_def h' by auto
  have notin: "length h1 \<notin> set stack"
    using 5(4) len unfolding outside_def h' by auto
  have cell: "g ! length h1 = CArr vs" and lt: "length h1 < length g"
    using 5(3) len unfolding same_above_def h' by auto
  have "those (map (stringify g (length h1 # stack)) vs) = Some js"
    using 5(1) [OF pl same out] .
  then show ?case
    using notin cell lt by (simp add: v)
next
  case (6 kjs h)
  obtain kvs h1 where pl: "parse_props kjs h = (kvs, h1)" by (cases "parse_props kjs h")
  with 6(2) have v: "v = VRef (length h1)" and h': "h' = h1 @ [CObj kvs]" by simp_all
  have len: "length h \<le> length h1" using parse_length(3) [OF pl] .
  have same: "same_above (length h) (length h1) g h1"
    using 6(3) len unfolding same_above_def h' by (auto simp: nth_append)
  have out: "outside (length h1 # stack) (length h) (length h1)"
    using 6(4) unfolding outside_def h' by auto
  have notin: "length h1 \<notin> set stack"
    using 6(4) len unfolding outside_def h' by auto
  have cell: "g ! length h1 = CObj kvs" and lt: "length h1 < length g"
    using 6(3) len unfolding same_above_def h' by auto
  have "those (map (\<lambda>kv. map_option (Pair (fst kv))
                      (stringify g (length h1 # stack) (snd kv))) kvs) = Some kjs"
    using 6(1) [OF pl same out] .
  then show ?case
    using notin cell lt by (simp add: v)
next
  case (8 j js h)
  obtain v1 h1 where p1: "parse j h = (v1, h1)" by (cases "parse j h")
  obtain vs1 h2 where p2: "parse_list js h1 = (vs1, h2)" by (cases "parse_list js h1")
  from 8(3) p1 p2 have vs: "vs = v1 # vs1" and h': "h' = h2" by simp_all
  have l1: "length h \<le> length h1" using parse_length(1) [OF p1] .
  have l2: "length h1 \<le> length h2" using parse_length(2) [OF p2] .
  have old: "\<And>a. a < length h1 \<Longrightarrow> h2 ! a = h1 ! a" using parse_nth_old(2) [OF p2] .
  note same = same_above_split [OF 8(4) [unfolded h'] l1 l2 order_refl old]
  note out = outside_split [OF 8(5) [unfolded h'] l1 l2]
  have a: "stringify g stack v1 = Some j" using 8(1) [OF p1 same(1) out(1)] .
  have b: "those (map (stringify g stack) vs1) = Some js"
    using 8(2) [OF p1 [symmetric] refl p2 same(2) out(2)] .
  show ?case by (simp add: vs a b)
next
  case (10 k j kjs h)
  obtain v1 h1 where p1: "parse j h = (v1, h1)" by (cases "parse j h")
  obtain kvs1 h2 where p2: "parse_props kjs h1 = (kvs1, h2)" by (cases "parse_props kjs h1")
  from 10(3) p1 p2 have kvs: "kvs = (k, v1) # kvs1" and h': "h' = h2" by simp_all
  have l1: "length h \<le> length h1" using parse_length(1) [OF p1] .
  have l2: "length h1 \<le> length h2" using parse_length(3) [OF p2] .
  have old: "\<And>a. a < length h1 \<Longrightarrow> h2 ! a = h1 ! a" using parse_nth_old(3) [OF p2] .
  note same = same_above_split [OF 10(4) [unfolded h'] l1 l2 order_refl old]
  note out = outside_split [OF 10(5) [unfolded h'] l1 l2]
  have a: "stringify g stack v1 = Some j" using 10(1) [OF p1 same(1) out(1)] .
  have b: "those (map (\<lambda>kv. map_option (Pair (fst kv)) (stringify g stack (snd kv))) kvs1)
             = Some kjs"
    using 10(2) [OF p1 [symmetric] refl p2 same(2) out(2)] .
  show ?case by (simp add: kvs a b)
qed auto

text \<open>
  A parsed value reads back as the text it was parsed from, in every store that still
  has the cells the parse built.
\<close>

lemma stringify_parsed:
  assumes "parse j h = (v, h')" and "same_above (length h) (length h') g h'"
  shows "stringify g [] v = Some j"
  using stringify_parse(1) [OF assms] by (simp add: outside_def)

subsection \<open>Accepting a new \<open>segments\<close> input\<close>

lemma editingSegmentId_watch_segments [simp]:
  "editingSegmentId (watch_segments v s) = editingSegmentId s"
  by (simp add: watch_segments_def split: option.splits prod.splits)

lemma watch_segments_copy:
  assumes "stringify (objects s) [] v = Some text" and "parse text (objects s) = (copy, objs)"
  shows "watch_segments v s = s\<lparr>objects := objs, editedSegments := copy\<rparr>"
  using assms by (simp add: watch_segments_def)

lemma host_writes_keep_copy:
  assumes "editedSegments x = copy"
    and "same_above n m (objects x) h"
    and "\<forall>w \<in> set ws. fst w < n"
  shows "editedSegments (editor_run (map (\<lambda>w. HostWrites (fst w) (snd w)) ws) x) = copy
         \<and> same_above n m (objects (editor_run (map (\<lambda>w. HostWrites (fst w) (snd w)) ws) x)) h
         \<and> editingSegmentId (editor_run (map (\<lambda>w. HostWrites (fst w) (snd w)) ws) x)
             = editingSegmentId x"
  using assms
proof (induction ws arbitrary: x)
  case Nil
  then show ?case by simp
next
  case (Cons w ws)
  let ?y = "editor_step (HostWrites (fst w) (snd w)) x"
  have lt: "fst w < n" using Cons.prems(3) by simp
  have e: "editedSegments ?y = copy" using Cons.prems(1) by simp
  have i: "editingSegmentId ?y = editingSegmentId x" by simp
  have s: "same_above n m (objects ?y) h"
    using Cons.prems(2) lt unfolding same_above_def by auto
  have rest: "\<forall>w \<in> set ws. fst w < n" using Cons.prems(3) by simp
  show ?case using Cons.IH [OF e s rest] i by simp
qed

text \<open>
  C7, as the code has it. When the watcher of \<open>props.segments\<close> runs on an input that
  \<open>JSON.stringify\<close> accepts, the working collection becomes a copy that reads as the
  same JSON text as the input and is built from new cells only: after any sequence of
  writes by the host to objects and arrays that existed when the watcher ran (the input
  among them), the working collection still reads as that text. The segment being edited
  (\<open>editingSegmentId\<close>) is left as it was.
\<close>

theorem segments_watcher_deep_copy:
  assumes "stringify (objects s) [] newSegments = Some text"
    and "\<forall>w \<in> set ws. fst w < length (objects s)"
  shows "collection (watch_segments newSegments s) = Some text
         \<and> collection (editor_run (map (\<lambda>w. HostWrites (fst w) (snd w)) ws)
              (watch_segments newSegments s)) = Some text
         \<and> editingSegmentId (editor_run (map (\<lambda>w. HostWrites (fst w) (snd w)) ws)
              (watch_segments newSegments s)) = editingSegmentId s"
proof -
  obtain copy objs where p: "parse text (objects s) = (copy, objs)"
    by (cases "parse text (objects s)")
  let ?s' = "watch_segments newSegments s"
  let ?s'' = "editor_run (map (\<lambda>w. HostWrites (fst w) (snd w)) ws) ?s'"
  have s': "?s' = s\<lparr>objects := objs, editedSegments := copy\<rparr>"
    using watch_segments_copy [OF assms(1) p] .
  have len: "length (objects s) \<le> length objs" using parse_length(1) [OF p] .
  have same: "same_above (length (objects s)) (length objs) (objects ?s') objs"
    using len by (simp add: s' same_above_def)
  have first: "collection ?s' = Some text"
    using stringify_parsed [OF p same] by (simp add: collection_def s')
  have ed: "editedSegments ?s' = copy" by (simp add: s')
  note kept = host_writes_keep_copy [OF ed same assms(2)]
  have later: "collection ?s'' = Some text"
    using stringify_parsed [OF p] kept by (simp add: collection_def)
  show ?thesis using first later kept by simp
qed

lemmas editor_defs =
  abc_editor_def hello_editor_def three_segments_def segment_def mount_editor_def
  watch_segments_def watch_ragContent_def collection_def editSegment_def emit_ed_def
  processRAGContent_call_def processRAGContent_resume_def processRAGContent_catch_def
  mergeSegments_def remove_nth_def Let_def

theorem segments_watcher_deep_copy_witness:
  "stringify (objects abc_editor) [] (segments abc_editor) = Some three_segments
   \<and> length (objects abc_editor) = 15
   \<and> collection (editor_run [HostWrites 1 (CObj []), HostWrites 6 (CArr [])]
        (watch_segments (segments abc_editor) abc_editor)) = Some three_segments
   \<and> stringify (objects (editor_run [HostWrites 1 (CObj []), HostWrites 6 (CArr [])]
        (watch_segments (segments abc_editor) abc_editor))) [] (segments abc_editor)
       = Some (JArr [])"
proof -
  have src: "stringify (objects abc_editor) [] (segments abc_editor) = Some three_segments"
    by (simp add: editor_defs)
  have len: "length (objects abc_editor) = 15"
    by (simp add: editor_defs)
  have old: "\<forall>w \<in> set [(1, CObj []), (6, CArr [])]. fst w < length (objects abc_editor)"
    by (simp add: len)
  have source_now: "stringify (objects (editor_run [HostWrites 1 (CObj []), HostWrites 6 (CArr [])]
        (watch_segments (segments abc_editor) abc_editor))) [] (segments abc_editor)
       = Some (JArr [])"
    by (simp add: editor_defs)
  show ?thesis
    using segments_watcher_deep_copy [OF src old] src len source_now by simp
qed

text \<open>
  C7 as stated fails in its last part: with segment \<open>a\<close> in edit mode, a run of the
  watcher replaces the working collection by a new copy and segment \<open>a\<close> is still in
  edit mode.
\<close>

theorem edit_mode_kept_counterexample:
  "editingSegmentId (editor_step (ClickEdit (VStr ''a'')) abc_editor) = VStr ''a''
   \<and> editedSegments (editor_step (ClickEdit (VStr ''a'')) abc_editor) = VRef 14
   \<and> editedSegments (watch_segments (segments abc_editor)
        (editor_step (ClickEdit (VStr ''a'')) abc_editor)) = VRef 21
   \<and> editingSegmentId (watch_segments (segments abc_editor)
        (editor_step (ClickEdit (VStr ''a'')) abc_editor)) = VStr ''a''"
  by (simp add: editor_defs)

subsection \<open>A segmentation run that fails, or is not started\<close>




subsection \<open>Merging\<close>

text \<open>
  C1, as the code has it. \<open>mergeSegments\<close> is a placeholder: whatever is selected, the
  working collection (its segments, their contents and their number), the selection and
  the events emitted are as before, with two or more segments selected as with fewer.
\<close>

theorem merge_changes_nothing:
  "collection (mergeSegments s) = collection s
   \<and> objects (mergeSegments s) = objects s
   \<and> editedSegments (mergeSegments s) = editedSegments s
   \<and> selectedSegments (mergeSegments s) = selectedSegments s
   \<and> events (mergeSegments s) = events s"
  by (simp add: mergeSegments_def)

text \<open>
  C1 as stated fails: with the segments \<open>a\<close>, \<open>b\<close>, \<open>c\<close> of contents \<open>x\<close>, \<open>y\<close>, \<open>z\<close> and
  \<open>b\<close> and \<open>c\<close> selected, merging leaves the three segments as they are, where the claim
  has two segments left, the second with content \<open>yz\<close>.
\<close>

theorem merge_counterexample:
  "selectedSegments (abc_editor\<lparr>selectedSegments := [''b'', ''c'']\<rparr>) = [''b'', ''c'']
   \<and> collection (abc_editor\<lparr>selectedSegments := [''b'', ''c'']\<rparr>) = Some three_segments
   \<and> collection (editor_step ClickMerge (abc_editor\<lparr>selectedSegments := [''b'', ''c'']\<rparr>))
       = Some three_segments
   \<and> three_segments \<noteq> JArr [segment ''a'' ''x'', segment ''b'' ''yz'']"
  by (simp add: editor_defs)

end
